theory Spec2Isabelle
  imports
    Main
    "HOL-Library.Word"
    "HOL-Library.Signed_Division"
    "HOL-Library.AList"
    "HOL-Library.List_Lexorder"
    "HOL-Library.Char_ord"
begin

section \<open>Go values the package works with\<close>

text \<open>
  A Go \<^verbatim>\<open>[]byte\<close> and a Go \<^verbatim>\<open>string\<close> are both sequences of bytes: \<^typ>\<open>string\<close>.
  An \<^verbatim>\<open>error\<close> is \<open>error option\<close>, \<open>None\<close> being \<^verbatim>\<open>nil\<close>.

  \<^verbatim>\<open>fmt.Errorf(format, args...)\<close> is kept as the call it is: the format string and the
  arguments handed to it. (Rendering \<^verbatim>\<open>%#v\<close> is \<^verbatim>\<open>strconv.Quote\<close>, which escapes the
  argument; what an error carries is read off the arguments, what it names off the
  format.) \<open>ErrorsNew\<close> is \<^verbatim>\<open>errors.New\<close>, \<open>InvalidLogin\<close> and \<open>APIError\<close> are the package's own
  error types, \<open>LibError\<close> is an error made by the standard library (transport, JSON
  decoder, URL parser, \<^verbatim>\<open>time.Parse\<close>).
\<close>

datatype error =
    Errorf string "fmt_arg list"
  | ErrorsNew string
  | InvalidLogin string
  | APIError int string string
  | LibError string
and fmt_arg =
    ArgString string
  | ArgError "error option"

text \<open>A run-time panic ends the call without a return value.\<close>

datatype panic = IndexOutOfRange | SliceBoundsOutOfRange | NilPointerDereference

datatype 'a outcome = Panic panic | Return 'a

definition len :: "string \<Rightarrow> int" where
  "len b = int (length b)"

definition index :: "string \<Rightarrow> int \<Rightarrow> char outcome" where
  \<comment> \<open>\<^verbatim>\<open>b[i]\<close>\<close>
  "index b i = (if 0 \<le> i \<and> i < len b then Return (b ! nat i) else Panic IndexOutOfRange)"

definition slice :: "string \<Rightarrow> int \<Rightarrow> int \<Rightarrow> string outcome" where
  \<comment> \<open>\<^verbatim>\<open>b[lo:hi]\<close>, the capacity of \<open>b\<close> being at least its length\<close>
  "slice b lo hi =
     (if 0 \<le> lo \<and> lo \<le> hi \<and> hi \<le> len b
      then Return (take (nat (hi - lo)) (drop (nat lo) b))
      else Panic SliceBoundsOutOfRange)"

definition dquote :: char where
  "dquote = CHR 0x22"

section \<open>Scalar decoders\<close>

text \<open>
  Five decoders open with the same statement,
  \<^verbatim>\<open>if b[0] == '"' && b[len(b)-1] == '"' { b = b[1 : len(b)-1] } else { return fmt.Errorf(...) }\<close>.
  \<open>strip_quotes\<close> is that statement: \<open>Return (Some b')\<close> when the \<^verbatim>\<open>if\<close> branch is taken
  (with the new \<open>b\<close>), \<open>Return None\<close> when the \<^verbatim>\<open>else\<close> branch is, and the panic of
  \<^verbatim>\<open>b[0]\<close>, \<^verbatim>\<open>b[len(b)-1]\<close> or the slice expression. \<^verbatim>\<open>&&\<close> evaluates its right
  operand only when the left one is true.
\<close>

definition strip_quotes :: "string \<Rightarrow> string option outcome" where
  "strip_quotes b =
     (case index b 0 of
        Panic p \<Rightarrow> Panic p
      | Return c0 \<Rightarrow>
          if c0 \<noteq> dquote then Return None
          else (case index b (len b - 1) of
                  Panic p \<Rightarrow> Panic p
                | Return c1 \<Rightarrow>
                    if c1 \<noteq> dquote then Return None
                    else (case slice b 1 (len b - 1) of
                            Panic p \<Rightarrow> Panic p
                          | Return b' \<Rightarrow> Return (Some b'))))"

text \<open>
  The named string types. An \<^verbatim>\<open>UnmarshalJSON\<close> method takes the receiver's value and
  the input and gives the receiver's new value and the returned error.
\<close>

datatype RecordType = RecordType string
datatype DomainID = DomainID string
datatype DNSRecordID = DNSRecordID string

fun string_of_RecordType :: "RecordType \<Rightarrow> string" where
  "string_of_RecordType (RecordType s) = s"

fun string_of_DomainID :: "DomainID \<Rightarrow> string" where
  \<comment> \<open>the conversion \<^verbatim>\<open>string(domainID)\<close>\<close>
  "string_of_DomainID (DomainID s) = s"

fun string_of_DNSRecordID :: "DNSRecordID \<Rightarrow> string" where
  \<comment> \<open>the conversion \<^verbatim>\<open>string(dnsID)\<close>\<close>
  "string_of_DNSRecordID (DNSRecordID s) = s"

definition RecordType_UnmarshalJSON ::
  "RecordType \<Rightarrow> string \<Rightarrow> (RecordType \<times> error option) outcome" where
  "RecordType_UnmarshalJSON rt b =
     (case strip_quotes b of
        Panic p \<Rightarrow> Panic p
      | Return None \<Rightarrow>
          Return (rt, Some (Errorf ''unable to parse a RecordType from %#v'' [ArgString b]))
      | Return (Some b') \<Rightarrow> Return (RecordType b', None))"

definition DomainID_UnmarshalJSON ::
  "DomainID \<Rightarrow> string \<Rightarrow> (DomainID \<times> error option) outcome" where
  "DomainID_UnmarshalJSON dri b =
     (case strip_quotes b of
        Panic p \<Rightarrow> Panic p
      | Return None \<Rightarrow>
          Return (dri, Some (Errorf ''unable to parse a DNSRecordID from %#v'' [ArgString b]))
      | Return (Some b') \<Rightarrow> Return (DomainID b', None))"

definition DNSRecordID_UnmarshalJSON ::
  "DNSRecordID \<Rightarrow> string \<Rightarrow> (DNSRecordID \<times> error option) outcome" where
  "DNSRecordID_UnmarshalJSON dri b =
     (case strip_quotes b of
        Panic p \<Rightarrow> Panic p
      | Return None \<Rightarrow>
          Return (dri, Some (Errorf ''unable to parse a DNSRecordID from %#v'' [ArgString b]))
      | Return (Some b') \<Rightarrow> Return (DNSRecordID b', None))"

subsection \<open>TTL\<close>

text \<open>
  \<^verbatim>\<open>time.Duration\<close> is an \<^verbatim>\<open>int64\<close> count of nanoseconds; \<^verbatim>\<open>TTL\<close> is a
  \<^verbatim>\<open>time.Duration\<close>. Multiplication wraps around.
\<close>

type_synonym Duration = "64 word"
type_synonym TTL = Duration

definition Second :: Duration where
  "Second = 1000000000"

definition isDigit :: "char \<Rightarrow> bool" where
  "isDigit c = (48 \<le> (of_char c :: nat) \<and> (of_char c :: nat) \<le> 57)"

definition digitVal :: "char \<Rightarrow> nat" where
  "digitVal c = of_char c - 48"

definition decimal :: "string \<Rightarrow> nat" where
  "decimal ds = foldl (\<lambda>n c. n * 10 + digitVal c) 0 ds"

text \<open>
  \<^verbatim>\<open>strconv.Atoi\<close> of the standard library, with Go's \<^verbatim>\<open>int\<close> of 64 bits: an optional
  sign, then one or more decimal digits and nothing else, the value within the range of
  \<^verbatim>\<open>int\<close>. \<open>None\<close> is the returned \<^verbatim>\<open>*NumError\<close>, which the only caller drops.
\<close>

definition Atoi :: "string \<Rightarrow> int option" where
  "Atoi s =
     (case s of
        [] \<Rightarrow> None
      | c # cs \<Rightarrow>
          let ds = (if c = CHR ''-'' \<or> c = CHR ''+'' then cs else s)
          in if ds = [] then None
             else if list_all isDigit ds then
               (let n = int (decimal ds);
                    v = (if c = CHR ''-'' then - n else n)
                in if - (2 ^ 63) \<le> v \<and> v < 2 ^ 63 then Some v else None)
             else None)"

definition TTL_UnmarshalJSON :: "TTL \<Rightarrow> string \<Rightarrow> (TTL \<times> error option) outcome" where
  "TTL_UnmarshalJSON ttl b =
     (case Atoi b of
        None \<Rightarrow> Return (ttl, Some (Errorf ''unable to parse a TTL from %s'' [ArgString b]))
      | Some val \<Rightarrow> Return (word_of_int val * Second, None))"

subsection \<open>Date and YearMonth\<close>

text \<open>
  Both structs embed a \<^verbatim>\<open>time.Time\<close>, a type of the standard library: \<open>'t\<close>.
  \<^verbatim>\<open>time.Parse(layout, value)\<close> is a parameter \<open>time_Parse\<close> of the decoders: it returns
  a time and an error. The decoders store the time in the receiver and format the error
  with \<^verbatim>\<open>%s\<close>, whatever it is.
\<close>

record 't Date =
  Time :: 't

record 't YearMonth =
  Time :: 't

definition Date_UnmarshalJSON ::
  "(string \<Rightarrow> string \<Rightarrow> 't \<times> error option) \<Rightarrow> 't Date \<Rightarrow> string
     \<Rightarrow> ('t Date \<times> error option) outcome" where
  "Date_UnmarshalJSON time_Parse d b =
     (case strip_quotes b of
        Panic p \<Rightarrow> Panic p
      | Return None \<Rightarrow>
          Return (d, Some (Errorf ''unable to parse a Date from %#v'' [ArgString b]))
      | Return (Some b') \<Rightarrow>
          (case time_Parse ''2006-01-02'' b' of
             (t, err) \<Rightarrow>
               Return (d\<lparr>Date.Time := t\<rparr>,
                       Some (Errorf ''unable to parse the Date string: %s'' [ArgError err]))))"

definition YearMonth_UnmarshalJSON ::
  "(string \<Rightarrow> string \<Rightarrow> 't \<times> error option) \<Rightarrow> 't YearMonth \<Rightarrow> string
     \<Rightarrow> ('t YearMonth \<times> error option) outcome" where
  "YearMonth_UnmarshalJSON time_Parse ym b =
     (case strip_quotes b of
        Panic p \<Rightarrow> Panic p
      | Return None \<Rightarrow>
          Return (ym, Some (Errorf ''unable to parse a YearMonth from %#v'' [ArgString b]))
      | Return (Some b') \<Rightarrow>
          (case time_Parse ''2006/01'' b' of
             (t, err) \<Rightarrow>
               Return (ym\<lparr>YearMonth.Time := t\<rparr>,
                       Some (Errorf ''unable to parse the YearMonth string: %s'' [ArgError err]))))"

section \<open>Data model\<close>

text \<open>
  The structs of the package, field by field. \<open>'v\<close> is the type of the values of
  \<^verbatim>\<open>map[string]interface{}\<close>, a pointer is an \<open>option\<close> (\<open>None\<close> is \<^verbatim>\<open>nil\<close>), a slice is a
  list, Go's \<^verbatim>\<open>int\<close> has 64 bits.
\<close>

record hoverResp =
  Succeeded :: bool
  ErrorCode :: string
  Error :: string

record 't Billing =
  PayMode :: string
  CardNumber :: string
  CardExpires :: "'t YearMonth"
  FirstName :: string
  LastName :: string
  Address1 :: string
  Address2 :: string
  City :: string
  State :: string
  Country :: string
  PostalCode :: string
  Phone :: string

record 't User =
  Email :: string
  EmailSecondary :: string
  Billing :: "'t Billing"

record Contact =
  FirstName :: string
  LastName :: string
  OrgName :: string
  Email :: string
  Phone :: string
  Fax :: string
  City :: string
  State :: string
  ZIPCode :: string
  Country :: string
  Address1 :: string
  Address2 :: string
  Address3 :: string

record Contacts =
  Admin :: Contact
  Owner :: Contact
  Tech :: Contact

record ('t, 'v) Domain =
  ID :: DomainID
  Status :: string
  DomainName :: string
  RenewalDate :: "'t Date"
  DisplayDate :: "'t Date"
  Glue :: "string \<rightharpoonup> 'v"
  HoverUser :: "'t User"
  Nameservers :: "string list"
  Renewable :: bool
  AutoRenew :: bool
  Locked :: bool
  WhoisPrivacy :: bool
  NumEmails :: "64 word"
  Contacts :: Contacts
  RegisteredDate :: "'t Date"

record DNSRecord =
  ID :: DNSRecordID
  Type :: RecordType
  Name :: string
  Content :: string
  TTL :: TTL
  IsDefault :: bool
  CanRevert :: bool

record DNSDomain =
  ID :: DomainID
  DomainName :: string
  Active :: bool
  Entries :: "DNSRecord option list"

record NewDNSRecord =
  Type :: RecordType
  Name :: string
  Content :: string
  TTL :: Duration


record ('t, 'v) domainResp = hoverResp +
  Domain :: "('t, 'v) Domain option"

record dnsDomainsResp = hoverResp +
  DNSDomains :: "DNSDomain option list"

section \<open>HTTP\<close>

text \<open>
  What the package reads and writes of the types of \<^verbatim>\<open>net/http\<close>: the name and value of
  a cookie; the method, URL and cookies of a request; the status code of a response,
  the cookies \<^verbatim>\<open>r.Cookies()\<close> finds in it, and what \<^verbatim>\<open>ioutil.ReadAll(resp.Body)\<close>
  returns. An \<^verbatim>\<open>*http.Client\<close> is what it answers to a request under the caller's
  context: a response or an error (cancellation is one).
\<close>

record Cookie =
  Name :: string
  Value :: string

record Request =
  Method :: string
  URL :: string
  Cookie_header :: "Cookie list"

record Response =
  StatusCode :: int
  Cookies :: "Cookie list"
  Body :: "error + string"

type_synonym http_Client = "Request \<Rightarrow> error + Response"

text \<open>
  \<^verbatim>\<open>req.AddCookie(c)\<close> of \<^verbatim>\<open>net/http\<close> writes the cookie into the request's header with
  its name and value sanitized: in the name a line feed or carriage return becomes \<^verbatim>\<open>-\<close>;
  of the value only the bytes from \<^verbatim>\<open>0x20\<close> to \<^verbatim>\<open>0x7e\<close> other than the double quote, the
  semicolon and the backslash are kept, and a value with a space or a comma is put in
  double quotes. (The cookie's other fields are not sent; a cookie marked as quoted is
  not modelled.)
\<close>

definition sanitizeCookieName :: "string \<Rightarrow> string" where
  "sanitizeCookieName n =
     map (\<lambda>b. if b = CHR 0x0A \<or> b = CHR 0x0D then CHR ''-'' else b) n"

definition validCookieValueByte :: "char \<Rightarrow> bool" where
  "validCookieValueByte b =
     (32 \<le> (of_char b :: nat) \<and> (of_char b :: nat) < 127
      \<and> b \<noteq> CHR 0x22 \<and> b \<noteq> CHR '';'' \<and> b \<noteq> CHR 0x5C)"

definition sanitizeCookieValue :: "string \<Rightarrow> string" where
  "sanitizeCookieValue v =
     (let v' = filter validCookieValueByte v
      in if v' = [] then v'
         else if list_ex (\<lambda>b. b = CHR '' '' \<or> b = CHR '','') v' then CHR 0x22 # v' @ [CHR 0x22]
         else v')"

definition AddCookie :: "Request \<Rightarrow> Cookie \<Rightarrow> Request" where
  "AddCookie req c =
     req\<lparr>Cookie_header :=
           Cookie_header req
             @ [\<lparr>Name = sanitizeCookieName (Name c), Value = sanitizeCookieValue (Value c)\<rparr>]\<rparr>"

text \<open>
  \<^verbatim>\<open>http.NewRequest(method, urlStr, nil)\<close> of \<^verbatim>\<open>net/http\<close>, for the URLs this package
  builds, all of which start with \<^verbatim>\<open>https://www.hover.com/api/\<close>: scheme and host always
  parse, so what \<^verbatim>\<open>url.Parse\<close> can refuse is a control byte before the fragment, or a
  \<^verbatim>\<open>%\<close> that is not followed by two hexadecimal digits in the path (the part before the
  first \<^verbatim>\<open>?\<close>) or in the fragment (the part after the first \<^verbatim>\<open>#\<close>); the query is not
  looked at. The method must be a token; the empty method stands for \<^verbatim>\<open>GET\<close>. The texts of
  the library's errors are abridged. The operations below take \<^verbatim>\<open>http.NewRequest\<close> as a
  parameter; \<open>net_http_NewRequest\<close> is the one of the library.
\<close>

definition ishex :: "char \<Rightarrow> bool" where
  "ishex c =
     (let n = (of_char c :: nat)
      in (48 \<le> n \<and> n \<le> 57) \<or> (97 \<le> n \<and> n \<le> 102) \<or> (65 \<le> n \<and> n \<le> 70))"

fun escapes_ok :: "string \<Rightarrow> bool" where
  "escapes_ok [] = True"
| "escapes_ok (c # cs) =
     (if c = CHR ''%''
      then (case cs of
              h1 # h2 # rest \<Rightarrow> ishex h1 \<and> ishex h2 \<and> escapes_ok rest
            | _ \<Rightarrow> False)
      else escapes_ok cs)"

definition Cut :: "string \<Rightarrow> char \<Rightarrow> string \<times> string" where
  \<comment> \<open>\<^verbatim>\<open>strings.Cut\<close> at the first occurrence of a one-byte separator\<close>
  "Cut s sep = (takeWhile (\<lambda>b. b \<noteq> sep) s, drop 1 (dropWhile (\<lambda>b. b \<noteq> sep) s))"

definition isCTL :: "char \<Rightarrow> bool" where
  "isCTL b = ((of_char b :: nat) < 32 \<or> (of_char b :: nat) = 127)"

definition url_Parse :: "string \<Rightarrow> error option" where
  "url_Parse rawURL =
     (case Cut rawURL (CHR ''#'') of
        (u, frag) \<Rightarrow>
          if list_ex isCTL u then Some (LibError ''net/url: invalid control character in URL'')
          else (case Cut u (CHR ''?'') of
                  (rest, query) \<Rightarrow>
                    if escapes_ok rest \<and> escapes_ok frag then None
                    else Some (LibError ''invalid URL escape'')))"

definition isTokenByte :: "char \<Rightarrow> bool" where
  "isTokenByte b =
     (let n = (of_char b :: nat)
      in (97 \<le> n \<and> n \<le> 122) \<or> (65 \<le> n \<and> n \<le> 90) \<or> (48 \<le> n \<and> n \<le> 57)
         \<or> list_ex (\<lambda>t. t = b) ''!#$%&'*+-.^_`|~'')"

definition validMethod :: "string \<Rightarrow> bool" where
  "validMethod method = (method \<noteq> [] \<and> list_all isTokenByte method)"

definition net_http_NewRequest :: "string \<Rightarrow> string \<Rightarrow> error + Request" where
  "net_http_NewRequest method urlStr =
     (let m = (if method = [] then ''GET'' else method)
      in if validMethod m
         then (case url_Parse urlStr of
                 Some err \<Rightarrow> Inl err
               | None \<Rightarrow> Inr \<lparr>Method = m, URL = urlStr, Cookie_header = []\<rparr>)
         else Inl (LibError ''net/http: invalid method''))"

definition defaultURL :: string where
  "defaultURL = ''https://www.hover.com/api''"

subsection \<open>Formatting\<close>

fun digits :: "nat \<Rightarrow> string" where
  "digits n =
     (if n < 10 then [''0123456789'' ! n]
      else digits (n div 10) @ [''0123456789'' ! (n mod 10)])"

declare digits.simps [simp del]

definition Itoa :: "int \<Rightarrow> string" where
  \<comment> \<open>\<^verbatim>\<open>strconv.Itoa\<close>, and the verb \<^verbatim>\<open>%d\<close> of \<^verbatim>\<open>fmt\<close>\<close>
  "Itoa i = (if i < 0 then CHR ''-'' # digits (nat (- i)) else digits (nat i))"

definition Join :: "string list \<Rightarrow> string \<Rightarrow> string" where
  "Join elems sep = (case elems of [] \<Rightarrow> [] | e # es \<Rightarrow> e @ concat (map (\<lambda>x. sep @ x) es))"

text \<open>
  \<^verbatim>\<open>url.Values\<close> with \<^verbatim>\<open>Set\<close> and \<^verbatim>\<open>Encode\<close> of \<^verbatim>\<open>net/url\<close>: keys in sorted order, key and
  value escaped by \<^verbatim>\<open>url.QueryEscape\<close> (letters, digits and \<^verbatim>\<open>-_.~\<close> are kept, a space
  becomes \<^verbatim>\<open>+\<close>, any other byte \<^verbatim>\<open>%XX\<close>).
\<close>

type_synonym Values = "(string \<times> string list) list"

definition Values_Set :: "Values \<Rightarrow> string \<Rightarrow> string \<Rightarrow> Values" where
  "Values_Set v key val = AList.update key [val] v"

definition shouldEscape :: "char \<Rightarrow> bool" where
  "shouldEscape c =
     (let n = (of_char c :: nat)
      in if (97 \<le> n \<and> n \<le> 122) \<or> (65 \<le> n \<and> n \<le> 90) \<or> (48 \<le> n \<and> n \<le> 57) then False
         else if c = CHR ''-'' \<or> c = CHR ''_'' \<or> c = CHR ''.'' \<or> c = CHR ''~'' then False
         else True)"

definition escape_byte :: "char \<Rightarrow> string" where
  "escape_byte c =
     (if c = CHR '' '' then ''+''
      else if shouldEscape c then
        [CHR ''%'', ''0123456789ABCDEF'' ! ((of_char c :: nat) div 16),
         ''0123456789ABCDEF'' ! ((of_char c :: nat) mod 16)]
      else [c])"

definition QueryEscape :: "string \<Rightarrow> string" where
  "QueryEscape s = concat (map escape_byte s)"

definition Values_Encode :: "Values \<Rightarrow> string" where
  "Values_Encode v =
     Join (concat (map (\<lambda>k. map (\<lambda>x. QueryEscape k @ ''='' @ QueryEscape x)
                                  (case map_of v k of None \<Rightarrow> [] | Some vs \<Rightarrow> vs))
                       (sort (map fst v))))
          ''&''"

section \<open>Login\<close>

text \<open>
  \<^verbatim>\<open>http.NewRequest\<close> is a parameter: it refuses a method or a URL it cannot parse.
  \<^verbatim>\<open>ctxhttp.Get\<close> builds a GET request and hands it to the client. Next to its result,
  a function that may send requests returns the requests it handed to the client, in
  order.
\<close>

definition ctxhttp_Get ::
  "(string \<Rightarrow> string \<Rightarrow> error + Request) \<Rightarrow> http_Client \<Rightarrow> string
     \<Rightarrow> (error + Response) \<times> Request list" where
  "ctxhttp_Get http_NewRequest hc url =
     (case http_NewRequest ''GET'' url of
        Inl err \<Rightarrow> (Inl err, [])
      | Inr req \<Rightarrow> (hc req, [req]))"

definition Login ::
  "(string \<Rightarrow> string \<Rightarrow> error + Request) \<Rightarrow> http_Client \<Rightarrow> string \<Rightarrow> string
     \<Rightarrow> (error + Cookie) \<times> Request list" where
  "Login http_NewRequest hc username password =
     (let v = Values_Set (Values_Set [] ''username'' username) ''password'' password
      in case ctxhttp_Get http_NewRequest hc (defaultURL @ ''/login?'' @ Values_Encode v) of
           (Inl err, sent) \<Rightarrow> (Inl err, sent)
         | (Inr r, sent) \<Rightarrow>
             if StatusCode r \<noteq> 200
             then (Inl (InvalidLogin (''login HTTP status code was '' @ Itoa (StatusCode r))), sent)
             else (case find (\<lambda>cook. Cookie.Name cook = ''hoverauth'' \<and> Value cook \<noteq> [])
                              (Cookies r) of
                     None \<Rightarrow>
                       (Inl (InvalidLogin
                          ''unable to find 'hoverauth' cookie with data in response''), sent)
                   | Some c \<Rightarrow> (Inr c, sent)))"

section \<open>Client\<close>

text \<open>
  \<open>cook\<close> is a pointer: \<^verbatim>\<open>req.AddCookie\<close> dereferences it. \<^verbatim>\<open>json.Unmarshal\<close> is a
  parameter of \<open>Client_do\<close> and of the operations: given the body and the value \<open>obj\<close>
  points to, it returns the value it leaves there and its error. \<open>Client_do\<close> returns
  that value, the status code, the error and the requests handed to the client. (Its
  last argument, the request body, is \<^verbatim>\<open>nil\<close> at every call.)
\<close>

record Client =
  hc :: http_Client
  cook :: "Cookie option"

definition NewClient :: "http_Client \<Rightarrow> Cookie option \<Rightarrow> Client" where
  "NewClient hc' loginCookie = \<lparr>hc = hc', cook = loginCookie\<rparr>"

definition Client_do ::
  "(string \<Rightarrow> string \<Rightarrow> error + Request) \<Rightarrow> (string \<Rightarrow> 'obj \<Rightarrow> 'obj \<times> error option)
     \<Rightarrow> Client \<Rightarrow> 'obj \<Rightarrow> string \<Rightarrow> string
     \<Rightarrow> ('obj \<times> int \<times> error option \<times> Request list) outcome" where
  "Client_do http_NewRequest json_Unmarshal c obj method urlStr =
     (case http_NewRequest method urlStr of
        Inl err \<Rightarrow> Return (obj, - 1, Some err, [])
      | Inr req \<Rightarrow>
          (case cook c of
             None \<Rightarrow> Panic NilPointerDereference
           | Some ck \<Rightarrow>
               (case hc c (AddCookie req ck) of
                  Inl err \<Rightarrow> Return (obj, - 1, Some err, [AddCookie req ck])
                | Inr resp \<Rightarrow>
                    (case Body resp of
                       Inl err \<Rightarrow> Return (obj, - 1, Some err, [AddCookie req ck])
                     | Inr body \<Rightarrow>
                         (case json_Unmarshal body obj of
                            (obj', err) \<Rightarrow>
                              Return (obj', StatusCode resp, err, [AddCookie req ck]))))))"



definition Client_GetDomain ::
  "(string \<Rightarrow> string \<Rightarrow> error + Request)
     \<Rightarrow> (string \<Rightarrow> ('t, 'v) domainResp \<Rightarrow> ('t, 'v) domainResp \<times> error option)
     \<Rightarrow> Client \<Rightarrow> DomainID
     \<Rightarrow> ((error + ('t, 'v) Domain option) \<times> Request list) outcome" where
  "Client_GetDomain http_NewRequest json_Unmarshal c domainID =
     (if string_of_DomainID domainID = [] then Return (Inl (ErrorsNew ''empty domainID''), [])
      else
        (case Client_do http_NewRequest json_Unmarshal c
                \<lparr>Succeeded = False, ErrorCode = [], Error = [], Domain = None\<rparr>
                ''GET'' (defaultURL @ ''/domains/'' @ string_of_DomainID domainID) of
           Panic p \<Rightarrow> Panic p
         | Return (dr, code, err, sent) \<Rightarrow>
             (case err of
                Some e \<Rightarrow> Return (Inl e, sent)
              | None \<Rightarrow>
                  if \<not> Succeeded dr
                  then Return (Inl (APIError code (ErrorCode dr) (Error dr)), sent)
                  else Return (Inr (Domain dr), sent))))"

definition Client_GetDNSDomains ::
  "(string \<Rightarrow> string \<Rightarrow> error + Request)
     \<Rightarrow> (string \<Rightarrow> dnsDomainsResp \<Rightarrow> dnsDomainsResp \<times> error option)
     \<Rightarrow> Client \<Rightarrow> DomainID
     \<Rightarrow> ((error + DNSDomain option list) \<times> Request list) outcome" where
  "Client_GetDNSDomains http_NewRequest json_Unmarshal c domainID =
     (if string_of_DomainID domainID = [] then Return (Inl (ErrorsNew ''empty domainID''), [])
      else
        (case Client_do http_NewRequest json_Unmarshal c
                \<lparr>Succeeded = False, ErrorCode = [], Error = [], DNSDomains = []\<rparr>
                ''GET'' (defaultURL @ ''/domains/'' @ string_of_DomainID domainID @ ''/dns'') of
           Panic p \<Rightarrow> Panic p
         | Return (dr, code, err, sent) \<Rightarrow>
             (case err of
                Some e \<Rightarrow> Return (Inl e, sent)
              | None \<Rightarrow>
                  if \<not> Succeeded dr
                  then Return (Inl (APIError code (ErrorCode dr) (Error dr)), sent)
                  else Return (Inr (DNSDomains dr), sent))))"

text \<open>
  \<open>rec\<close> is a pointer, read after the check of \<open>domainID\<close>. \<^verbatim>\<open>rec.TTL/time.Second\<close> is
  a division of \<^verbatim>\<open>int64\<close>s, which truncates towards zero.
\<close>

definition Client_AddDNSRecord ::
  "(string \<Rightarrow> string \<Rightarrow> error + Request)
     \<Rightarrow> (string \<Rightarrow> hoverResp \<Rightarrow> hoverResp \<times> error option)
     \<Rightarrow> Client \<Rightarrow> DomainID \<Rightarrow> NewDNSRecord option
     \<Rightarrow> (error option \<times> Request list) outcome" where
  "Client_AddDNSRecord http_NewRequest json_Unmarshal c domainID rec =
     (if string_of_DomainID domainID = [] then Return (Some (ErrorsNew ''empty domainID''), [])
      else
        (case rec of
           None \<Rightarrow> Panic NilPointerDereference
         | Some r \<Rightarrow>
             if NewDNSRecord.Content r = []
             then Return (Some (ErrorsNew ''Content can't be empty''), [])
             else
               (let v = Values_Set [] ''type'' (string_of_RecordType (NewDNSRecord.Type r));
                    v = Values_Set v ''name'' (NewDNSRecord.Name r);
                    v = Values_Set v ''content'' (NewDNSRecord.Content r);
                    v = Values_Set v ''ttl''
                          (Itoa (sint (NewDNSRecord.TTL r) sdiv sint Second))
                in case Client_do http_NewRequest json_Unmarshal c
                          \<lparr>Succeeded = False, ErrorCode = [], Error = []\<rparr>
                          ''POST''
                          (defaultURL @ ''/domains/'' @ string_of_DomainID domainID
                             @ ''/dns?'' @ Values_Encode v) of
                     Panic p \<Rightarrow> Panic p
                   | Return (dr, code, err, sent) \<Rightarrow>
                       (case err of
                          Some e \<Rightarrow> Return (Some e, sent)
                        | None \<Rightarrow>
                            if \<not> Succeeded dr
                            then Return (Some (APIError code (ErrorCode dr) (Error dr)), sent)
                            else Return (None, sent)))))"

definition Client_DeleteDNSRecord ::
  "(string \<Rightarrow> string \<Rightarrow> error + Request)
     \<Rightarrow> (string \<Rightarrow> hoverResp \<Rightarrow> hoverResp \<times> error option)
     \<Rightarrow> Client \<Rightarrow> DNSRecordID \<Rightarrow> (error option \<times> Request list) outcome" where
  "Client_DeleteDNSRecord http_NewRequest json_Unmarshal c dnsID =
     (case Client_do http_NewRequest json_Unmarshal c
             \<lparr>Succeeded = False, ErrorCode = [], Error = []\<rparr>
             ''DELETE'' (defaultURL @ ''/dns/'' @ string_of_DNSRecordID dnsID) of
        Panic p \<Rightarrow> Panic p
      | Return (dr, code, err, sent) \<Rightarrow>
          (case err of
             Some e \<Rightarrow> Return (Some e, sent)
           | None \<Rightarrow>
               if \<not> Succeeded dr
               then Return (Some (APIError code (ErrorCode dr) (Error dr)), sent)
               else Return (None, sent)))"

section \<open>Auxiliary definitions for the statements\<close>

text \<open>\<open>strings_Contains s substr\<close>: \<open>substr\<close> occurs in \<open>s\<close>.\<close>

definition strings_Contains :: "string \<Rightarrow> string \<Rightarrow> bool" where
  "strings_Contains s substr =
     list_ex (\<lambda>i. take (length substr) (drop i s) = substr) [0..<Suc (length s)]"

text \<open>
  Doubles for the collaborators, at which the theorems are instantiated: a
  \<^verbatim>\<open>http.NewRequest\<close> that accepts every URL, a transport that answers every request with
  a given status code and cookies, JSON decoders that fill the envelope with given
  values (the second one also the payload of a list of domains), and a client with the \<^verbatim>\<open>hoverauth\<close> cookie.
\<close>

definition double_NewRequest :: "string \<Rightarrow> string \<Rightarrow> error + Request" where
  "double_NewRequest method urlStr = Inr \<lparr>Method = method, URL = urlStr, Cookie_header = []\<rparr>"

definition double_transport :: "int \<Rightarrow> Cookie list \<Rightarrow> http_Client" where
  "double_transport code cs req = Inr \<lparr>StatusCode = code, Cookies = cs, Body = Inr []\<rparr>"

definition double_Unmarshal ::
  "bool \<Rightarrow> string \<Rightarrow> string \<Rightarrow> string \<Rightarrow> 'a hoverResp_scheme
     \<Rightarrow> 'a hoverResp_scheme \<times> error option" where
  "double_Unmarshal ok ec em body obj =
     (obj\<lparr>Succeeded := ok, ErrorCode := ec, Error := em\<rparr>, None)"


definition hoverauth :: Cookie where
  "hoverauth = \<lparr>Name = ''hoverauth'', Value = ''abc123''\<rparr>"

definition double_Client :: "int \<Rightarrow> Client" where
  "double_Client code = \<lparr>hc = double_transport code [], cook = Some hoverauth\<rparr>"


text \<open>The URLs that \<open>Login\<close> and \<open>Client_AddDNSRecord\<close> build, for the statements.\<close>

definition loginURL :: "string \<Rightarrow> string \<Rightarrow> string" where
  "loginURL username password =
     defaultURL @ ''/login?''
       @ Values_Encode (Values_Set (Values_Set [] ''username'' username) ''password'' password)"

definition addDNSRecordURL :: "DomainID \<Rightarrow> NewDNSRecord \<Rightarrow> string" where
  "addDNSRecordURL domainID r =
     defaultURL @ ''/domains/'' @ string_of_DomainID domainID @ ''/dns?''
       @ Values_Encode
           (Values_Set (Values_Set (Values_Set (Values_Set []
              ''type'' (string_of_RecordType (NewDNSRecord.Type r)))
              ''name'' (NewDNSRecord.Name r))
              ''content'' (NewDNSRecord.Content r))
              ''ttl'' (Itoa (sint (NewDNSRecord.TTL r) sdiv sint Second)))"

definition double_refusing_NewRequest :: "string \<Rightarrow> string \<Rightarrow> error + Request" where
  "double_refusing_NewRequest method urlStr = Inl (LibError ''invalid URL'')"

definition double_failing_transport :: http_Client where
  "double_failing_transport req = Inl (LibError ''connection refused'')"


section \<open>The scalar decoders: properties\<close>

lemma index_0_Cons: "index (x # xs) 0 = Return x"
  by (simp add: index_def len_def)

lemma index_last_snoc: "index (x # c @ [y]) (len (x # c @ [y]) - 1) = Return y"
proof -
  have "nat (len (x # c @ [y]) - 1) = Suc (length c)"
    by (simp add: len_def)
  moreover have "(x # c @ [y]) ! Suc (length c) = y"
    by simp
  ultimately show ?thesis
    by (simp add: index_def len_def)
qed

lemma slice_inner: "slice (x # c @ [y]) 1 (len (x # c @ [y]) - 1) = Return c"
  by (simp add: slice_def len_def)

lemma strip_quotes_quoted: "strip_quotes (dquote # c @ [dquote]) = Return (Some c)"
  unfolding strip_quotes_def
  by (simp only: index_0_Cons index_last_snoc slice_inner outcome.case if_False simp_thms)

lemma strip_quotes_Nil: "strip_quotes [] = Panic IndexOutOfRange"
  by (simp add: strip_quotes_def index_def len_def)

lemma strip_quotes_single: "strip_quotes [dquote] = Panic SliceBoundsOutOfRange"
  by (simp add: strip_quotes_def index_def slice_def len_def)

lemma strip_quotes_unquoted: "x \<noteq> dquote \<Longrightarrow> strip_quotes (x # xs) = Return None"
  by (simp add: strip_quotes_def index_0_Cons)

lemma quoted_date: "''\"2020-03-05\"'' = dquote # ''2020-03-05'' @ [dquote]"
  by (simp add: dquote_def)

lemma quoted_yearmonth: "''\"2020/03\"'' = dquote # ''2020/03'' @ [dquote]"
  by (simp add: dquote_def)

text \<open>
  C1. The claim: decoding the quoted string \<^verbatim>\<open>"2020-03-05"\<close> as a Date succeeds and yields
  March 5, 2020, and the YearMonth decoder surfaces a failure only when the parse fails.
  The code: both decoders end with \<^verbatim>\<open>return fmt.Errorf("...: %s", err)\<close>, with no test
  of \<open>err\<close>. Whatever \<^verbatim>\<open>time.Parse\<close> returns, the parsed time is stored in the receiver
  and the returned error is not \<^verbatim>\<open>nil\<close>; no input makes either decoder return \<^verbatim>\<open>nil\<close>.
\<close>

theorem Date_decode_always_errors:
  "Date_UnmarshalJSON time_Parse d ''\"2020-03-05\"''
     = Return (d\<lparr>Date.Time := fst (time_Parse ''2006-01-02'' ''2020-03-05'')\<rparr>,
               Some (Errorf ''unable to parse the Date string: %s''
                       [ArgError (snd (time_Parse ''2006-01-02'' ''2020-03-05''))]))
   \<and> Date_UnmarshalJSON time_Parse d b \<noteq> Return (d', None)
   \<and> YearMonth_UnmarshalJSON time_Parse ym ''\"2020/03\"''
     = Return (ym\<lparr>YearMonth.Time := fst (time_Parse ''2006/01'' ''2020/03'')\<rparr>,
               Some (Errorf ''unable to parse the YearMonth string: %s''
                       [ArgError (snd (time_Parse ''2006/01'' ''2020/03''))]))
   \<and> YearMonth_UnmarshalJSON time_Parse ym b \<noteq> Return (ym', None)"
proof (intro conjI)
  show "Date_UnmarshalJSON time_Parse d ''\"2020-03-05\"''
     = Return (d\<lparr>Date.Time := fst (time_Parse ''2006-01-02'' ''2020-03-05'')\<rparr>,
               Some (Errorf ''unable to parse the Date string: %s''
                       [ArgError (snd (time_Parse ''2006-01-02'' ''2020-03-05''))]))"
    unfolding quoted_date Date_UnmarshalJSON_def strip_quotes_quoted
    by (simp add: case_prod_beta)
  show "Date_UnmarshalJSON time_Parse d b \<noteq> Return (d', None)"
    by (simp add: Date_UnmarshalJSON_def split: outcome.splits option.splits prod.splits)
  show "YearMonth_UnmarshalJSON time_Parse ym ''\"2020/03\"''
     = Return (ym\<lparr>YearMonth.Time := fst (time_Parse ''2006/01'' ''2020/03'')\<rparr>,
               Some (Errorf ''unable to parse the YearMonth string: %s''
                       [ArgError (snd (time_Parse ''2006/01'' ''2020/03''))]))"
    unfolding quoted_yearmonth YearMonth_UnmarshalJSON_def strip_quotes_quoted
    by (simp add: case_prod_beta)
  show "YearMonth_UnmarshalJSON time_Parse ym b \<noteq> Return (ym', None)"
    by (simp add: YearMonth_UnmarshalJSON_def split: outcome.splits option.splits prod.splits)
qed

text \<open>
  C8. The claim: a failed decode carries the raw input and names the target type, a
  failed DomainID decode naming DomainID. The code: on the unquoted input \<^verbatim>\<open>abc\<close> the
  DomainID decoder returns the error of the DNSRecordID decoder, word for word; its format
  names \<^verbatim>\<open>DNSRecordID\<close> and does not contain \<^verbatim>\<open>DomainID\<close>.
\<close>

theorem DomainID_error_names_DNSRecordID:
  "DomainID_UnmarshalJSON dri ''abc''
     = Return (dri, Some (Errorf ''unable to parse a DNSRecordID from %#v'' [ArgString ''abc'']))
   \<and> strings_Contains ''unable to parse a DNSRecordID from %#v'' ''DomainID'' = False
   \<and> DNSRecordID_UnmarshalJSON rid ''abc''
     = Return (rid, Some (Errorf ''unable to parse a DNSRecordID from %#v'' [ArgString ''abc'']))"
proof -
  have "strings_Contains ''unable to parse a DNSRecordID from %#v'' ''DomainID'' = False"
    by code_simp
  then show ?thesis
    by (simp add: DomainID_UnmarshalJSON_def DNSRecordID_UnmarshalJSON_def
        strip_quotes_unquoted dquote_def)
qed

text \<open>
  C10. The claim: every scalar decoder returns a value or an error on every input, the
  empty input and the single double quote included. The code: on the empty input the five
  decoders that test for quotes panic at \<^verbatim>\<open>b[0]\<close>; on the single double quote both tests
  read the same byte and the slice \<^verbatim>\<open>b[1:0]\<close> panics. The TTL decoder returns an error on
  the empty input. (\<open>decoders_return_otherwise\<close> and \<open>TTL_UnmarshalJSON_returns\<close> below: on
  every other input each decoder returns.)
\<close>

theorem decoders_panic_on_short_input:
  "RecordType_UnmarshalJSON rt [] = Panic IndexOutOfRange
   \<and> DomainID_UnmarshalJSON did [] = Panic IndexOutOfRange
   \<and> DNSRecordID_UnmarshalJSON rid [] = Panic IndexOutOfRange
   \<and> Date_UnmarshalJSON time_Parse d [] = Panic IndexOutOfRange
   \<and> YearMonth_UnmarshalJSON time_Parse ym [] = Panic IndexOutOfRange
   \<and> RecordType_UnmarshalJSON rt ''\"'' = Panic SliceBoundsOutOfRange
   \<and> DomainID_UnmarshalJSON did ''\"'' = Panic SliceBoundsOutOfRange
   \<and> DNSRecordID_UnmarshalJSON rid ''\"'' = Panic SliceBoundsOutOfRange
   \<and> Date_UnmarshalJSON time_Parse d ''\"'' = Panic SliceBoundsOutOfRange
   \<and> YearMonth_UnmarshalJSON time_Parse ym ''\"'' = Panic SliceBoundsOutOfRange
   \<and> TTL_UnmarshalJSON ttl []
       = Return (ttl, Some (Errorf ''unable to parse a TTL from %s'' [ArgString []]))"
proof -
  have q: "''\"'' = [dquote]" by (simp add: dquote_def)
  have a: "Atoi [] = None" by (simp add: Atoi_def)
  show ?thesis
    unfolding q
    by (simp add: RecordType_UnmarshalJSON_def DomainID_UnmarshalJSON_def
        DNSRecordID_UnmarshalJSON_def Date_UnmarshalJSON_def YearMonth_UnmarshalJSON_def
        TTL_UnmarshalJSON_def strip_quotes_Nil strip_quotes_single a)
qed

lemma strip_quotes_total:
  assumes "b \<noteq> []" "b \<noteq> [dquote]"
  shows "\<exists>r. strip_quotes b = Return r"
proof -
  from assms(1) obtain x xs where b: "b = x # xs" by (cases b) auto
  show ?thesis
  proof (cases "x = dquote")
    case False
    with b show ?thesis by (simp add: strip_quotes_unquoted)
  next
    case True
    with assms(2) b have "xs \<noteq> []" by auto
    then have l: "1 \<le> length xs" by (cases xs) auto
    then have i: "index b (len b - 1) = Return (b ! nat (len b - 1))"
      using b by (simp add: index_def len_def)
    have s: "\<exists>r. slice b 1 (len b - 1) = Return r"
      using b l by (simp add: slice_def len_def)
    from b True i s show ?thesis
      by (auto simp add: strip_quotes_def index_0_Cons)
  qed
qed

lemma decoders_return_otherwise:
  assumes "b \<noteq> []" "b \<noteq> [dquote]"
  shows "(\<exists>r. RecordType_UnmarshalJSON rt b = Return r)
    \<and> (\<exists>r. DomainID_UnmarshalJSON did b = Return r)
    \<and> (\<exists>r. DNSRecordID_UnmarshalJSON rid b = Return r)
    \<and> (\<exists>r. Date_UnmarshalJSON time_Parse d b = Return r)
    \<and> (\<exists>r. YearMonth_UnmarshalJSON time_Parse ym b = Return r)"
proof -
  from strip_quotes_total [OF assms] obtain r where "strip_quotes b = Return r" ..
  then show ?thesis
    by (simp add: RecordType_UnmarshalJSON_def DomainID_UnmarshalJSON_def
        DNSRecordID_UnmarshalJSON_def Date_UnmarshalJSON_def YearMonth_UnmarshalJSON_def
        split: option.splits prod.splits)
qed

lemma TTL_UnmarshalJSON_returns: "\<exists>r. TTL_UnmarshalJSON ttl b = Return r"
  by (simp add: TTL_UnmarshalJSON_def split: option.splits)

text \<open>
  C7. For every content, decoding the bytes made of a double quote, the content and a
  double quote as a DomainID or as a DNSRecordID succeeds with a \<^verbatim>\<open>nil\<close> error, and
  converting the decoded identifier back to a string gives the content. The two quotes
  alone decode to the empty identifier.
\<close>

theorem opaque_id_decode_encode:
  "DomainID_UnmarshalJSON did (dquote # content @ [dquote]) = Return (DomainID content, None)
   \<and> string_of_DomainID (DomainID content) = content
   \<and> DNSRecordID_UnmarshalJSON rid (dquote # content @ [dquote])
       = Return (DNSRecordID content, None)
   \<and> string_of_DNSRecordID (DNSRecordID content) = content
   \<and> DomainID_UnmarshalJSON did ''\"\"'' = Return (DomainID [], None)
   \<and> DNSRecordID_UnmarshalJSON rid ''\"\"'' = Return (DNSRecordID [], None)"
proof -
  have e: "''\"\"'' = dquote # [] @ [dquote]" by (simp add: dquote_def)
  show ?thesis
    unfolding e
    by (simp only: DomainID_UnmarshalJSON_def DNSRecordID_UnmarshalJSON_def
        strip_quotes_quoted outcome.case option.case string_of_DomainID.simps
        string_of_DNSRecordID.simps simp_thms)
qed

lemma Atoi_bad_byte:
  assumes "c \<in> set b" "\<not> isDigit c" "c \<noteq> CHR ''-''" "c \<noteq> CHR ''+''"
  shows "Atoi b = None"
proof (cases b)
  case Nil
  then show ?thesis by (simp add: Atoi_def)
next
  case (Cons x xs)
  show ?thesis
  proof (cases "x = CHR ''-'' \<or> x = CHR ''+''")
    case True
    with assms Cons have "c \<in> set xs" by auto
    then have "\<not> list_all isDigit xs" using assms(2) by (auto simp: list_all_iff)
    with True Cons show ?thesis by (auto simp: Atoi_def Let_def)
  next
    case False
    have "\<not> list_all isDigit b" using assms(1,2) by (auto simp: list_all_iff)
    with False Cons show ?thesis by (auto simp: Atoi_def Let_def)
  qed
qed

lemma Atoi_Some_shape:
  assumes "Atoi b = Some v"
  shows "\<exists>sign ds. b = sign @ ds \<and> sign \<in> {[], ''-'', ''+''} \<and> ds \<noteq> [] \<and> list_all isDigit ds"
proof (cases b)
  case Nil
  with assms show ?thesis by (simp add: Atoi_def)
next
  case (Cons c cs)
  show ?thesis
  proof (cases "c = CHR ''-'' \<or> c = CHR ''+''")
    case True
    with assms Cons have "cs \<noteq> [] \<and> list_all isDigit cs"
      by (auto simp add: Atoi_def Let_def split: if_splits)
    moreover from True Cons have "b = [c] @ cs \<and> [c] \<in> {[], ''-'', ''+''}" by auto
    ultimately show ?thesis by blast
  next
    case False
    with assms Cons have "b \<noteq> [] \<and> list_all isDigit b"
      by (auto simp add: Atoi_def Let_def split: if_splits)
    then have "b = [] @ b \<and> [] \<in> {[], ''-'', ''+''} \<and> b \<noteq> [] \<and> list_all isDigit b" by simp
    then show ?thesis by blast
  qed
qed

lemma Atoi_not_integer:
  assumes "\<not> (\<exists>sign ds. b = sign @ ds \<and> sign \<in> {[], ''-'', ''+''} \<and> ds \<noteq> []
              \<and> list_all isDigit ds)"
  shows "Atoi b = None"
proof (cases "Atoi b")
  case None
  then show ?thesis .
next
  case (Some v)
  from Atoi_Some_shape [OF Some] assms show ?thesis by blast
qed

lemma Atoi_digits:
  assumes "ds \<noteq> []" "list_all isDigit ds" "decimal ds < 2 ^ 63"
  shows "Atoi ds = Some (int (decimal ds))"
proof -
  from assms(1) obtain c cs where d: "ds = c # cs" by (cases ds) auto
  from assms(2) d have "isDigit c" by simp
  then have ns: "c \<noteq> CHR ''-''" "c \<noteq> CHR ''+''" by (auto simp add: isDigit_def)
  have a: "list_all isDigit (c # cs)" using assms(2) d by simp
  have r1: "int (decimal (c # cs)) < 2 ^ 63" using assms(3) d by simp
  have "(0 :: int) \<le> int (decimal (c # cs))" by simp
  moreover have "- (2 ^ 63) \<le> (0 :: int)" by simp
  ultimately have r2: "- (2 ^ 63) \<le> int (decimal (c # cs))" by (rule order_trans [rotated])
  have "Atoi (c # cs) = Some (int (decimal (c # cs)))"
    unfolding Atoi_def Let_def list.case using ns a r1 r2
    by (simp only: if_False if_True simp_thms list.distinct)
  with d show ?thesis by simp
qed

text \<open>
  C6. Decoding the bare input \<^verbatim>\<open>900\<close> as a TTL succeeds with the duration of 900 seconds
  (900 000 000 000 nanoseconds, no wrap-around), and every string of digits whose value
  is below \<open>2 ^ 63\<close> decodes to that many seconds. Decoding the quoted input \<^verbatim>\<open>"900"\<close>
  fails, and so does every input that is not an optional sign followed by one or more
  digits (an input with a byte that is neither a digit nor a sign, the empty input, a
  lone sign, a sign between digits). Every error the decoder returns is made from the
  format \<^verbatim>\<open>unable to parse a TTL from %s\<close> and the raw input, and leaves the receiver as it
  was.
\<close>

theorem TTL_decode:
  "TTL_UnmarshalJSON ttl ''900'' = Return (900 * Second, None)
   \<and> sint (900 * Second) = 900 * 1000000000
   \<and> TTL_UnmarshalJSON ttl ''\"900\"''
       = Return (ttl, Some (Errorf ''unable to parse a TTL from %s'' [ArgString ''\"900\"'']))
   \<and> (c \<in> set b \<and> \<not> isDigit c \<and> c \<noteq> CHR ''-'' \<and> c \<noteq> CHR ''+''
        \<longrightarrow> TTL_UnmarshalJSON ttl b
            = Return (ttl, Some (Errorf ''unable to parse a TTL from %s'' [ArgString b])))
   \<and> (TTL_UnmarshalJSON ttl b = Return (ttl', Some e)
        \<longrightarrow> ttl' = ttl \<and> e = Errorf ''unable to parse a TTL from %s'' [ArgString b])
   \<and> (\<not> (\<exists>sign ds. b = sign @ ds \<and> sign \<in> {[], ''-'', ''+''} \<and> ds \<noteq> []
              \<and> list_all isDigit ds)
        \<longrightarrow> TTL_UnmarshalJSON ttl b
            = Return (ttl, Some (Errorf ''unable to parse a TTL from %s'' [ArgString b])))
   \<and> (ds \<noteq> [] \<and> list_all isDigit ds \<and> decimal ds < 2 ^ 63
        \<longrightarrow> TTL_UnmarshalJSON ttl ds = Return (word_of_int (int (decimal ds)) * Second, None))"
proof (intro conjI impI)
  show "TTL_UnmarshalJSON ttl ''900'' = Return (900 * Second, None)"
    by (simp add: TTL_UnmarshalJSON_def Atoi_def isDigit_def decimal_def digitVal_def)
  show "sint (900 * Second) = 900 * 1000000000"
    by (simp add: Second_def)
  show "TTL_UnmarshalJSON ttl ''\"900\"''
       = Return (ttl, Some (Errorf ''unable to parse a TTL from %s'' [ArgString ''\"900\"'']))"
    by (simp add: TTL_UnmarshalJSON_def Atoi_def isDigit_def)
  show "TTL_UnmarshalJSON ttl b
            = Return (ttl, Some (Errorf ''unable to parse a TTL from %s'' [ArgString b]))"
    if "c \<in> set b \<and> \<not> isDigit c \<and> c \<noteq> CHR ''-'' \<and> c \<noteq> CHR ''+''"
    using Atoi_bad_byte [of c b] that by (simp add: TTL_UnmarshalJSON_def)
  show "ttl' = ttl" if "TTL_UnmarshalJSON ttl b = Return (ttl', Some e)"
    using that by (simp add: TTL_UnmarshalJSON_def split: option.splits)
  show "e = Errorf ''unable to parse a TTL from %s'' [ArgString b]"
    if "TTL_UnmarshalJSON ttl b = Return (ttl', Some e)"
    using that by (auto simp add: TTL_UnmarshalJSON_def split: option.splits)
  show "TTL_UnmarshalJSON ttl b
            = Return (ttl, Some (Errorf ''unable to parse a TTL from %s'' [ArgString b]))"
    if "\<not> (\<exists>sign ds. b = sign @ ds \<and> sign \<in> {[], ''-'', ''+''} \<and> ds \<noteq> []
              \<and> list_all isDigit ds)"
    using Atoi_not_integer [OF that] by (simp add: TTL_UnmarshalJSON_def)
  show "TTL_UnmarshalJSON ttl ds = Return (word_of_int (int (decimal ds)) * Second, None)"
    if "ds \<noteq> [] \<and> list_all isDigit ds \<and> decimal ds < 2 ^ 63"
    using Atoi_digits [of ds] that by (simp add: TTL_UnmarshalJSON_def)
qed

text \<open>
  The inputs \<^verbatim>\<open>15m\<close>, \<^verbatim>\<open>1-2\<close>, \<^verbatim>\<open>-\<close> and the empty one fail with the raw input in the
  error; \<^verbatim>\<open>60\<close> decodes to 60 seconds.
\<close>

theorem TTL_decode_witness:
  "TTL_UnmarshalJSON 0 ''15m''
     = Return (0, Some (Errorf ''unable to parse a TTL from %s'' [ArgString ''15m'']))
   \<and> TTL_UnmarshalJSON 0 ''1-2''
     = Return (0, Some (Errorf ''unable to parse a TTL from %s'' [ArgString ''1-2'']))
   \<and> TTL_UnmarshalJSON 0 ''-''
     = Return (0, Some (Errorf ''unable to parse a TTL from %s'' [ArgString ''-'']))
   \<and> TTL_UnmarshalJSON 0 []
     = Return (0, Some (Errorf ''unable to parse a TTL from %s'' [ArgString []]))
   \<and> TTL_UnmarshalJSON 0 ''60'' = Return (60 * Second, None)"
proof -
  have h: "CHR ''m'' \<in> set ''15m'' \<and> \<not> isDigit CHR ''m'' \<and> CHR ''m'' \<noteq> CHR ''-''
      \<and> CHR ''m'' \<noteq> CHR ''+''"
    by (simp add: isDigit_def)
  have w1: "TTL_UnmarshalJSON 0 ''15m''
      = Return (0, Some (Errorf ''unable to parse a TTL from %s'' [ArgString ''15m'']))"
    using TTL_decode [THEN conjunct2, THEN conjunct2, THEN conjunct2, THEN conjunct1,
        rule_format, OF h] .
  have "0 = (0 :: TTL)
      \<and> Errorf ''unable to parse a TTL from %s'' [ArgString ''15m'']
          = Errorf ''unable to parse a TTL from %s'' [ArgString ''15m'']"
    using TTL_decode [THEN conjunct2, THEN conjunct2, THEN conjunct2, THEN conjunct2,
        THEN conjunct1, rule_format, OF w1] .
  have n1: "\<not> (\<exists>sign ds. ''1-2'' = sign @ ds \<and> sign \<in> {[], ''-'', ''+''} \<and> ds \<noteq> []
      \<and> list_all isDigit ds)"
    by (auto simp add: isDigit_def)
  have n2: "\<not> (\<exists>sign ds. ''-'' = sign @ ds \<and> sign \<in> {[], ''-'', ''+''} \<and> ds \<noteq> []
      \<and> list_all isDigit ds)"
    by (auto simp add: isDigit_def)
  have n3: "\<not> (\<exists>sign ds. [] = sign @ ds \<and> sign \<in> {[], ''-'', ''+''} \<and> ds \<noteq> []
      \<and> list_all isDigit ds)"
    by simp
  note not_integer = TTL_decode [THEN conjunct2, THEN conjunct2, THEN conjunct2,
      THEN conjunct2, THEN conjunct2, THEN conjunct1, rule_format]
  have d: "''60'' \<noteq> [] \<and> list_all isDigit ''60'' \<and> decimal ''60'' < 2 ^ 63"
    by (simp add: isDigit_def decimal_def digitVal_def)
  have v: "word_of_int (int (decimal ''60'')) = (60 :: TTL)"
    by (simp add: decimal_def digitVal_def)
  have w5: "TTL_UnmarshalJSON 0 ''60'' = Return (60 * Second, None)"
    using TTL_decode [THEN conjunct2, THEN conjunct2, THEN conjunct2, THEN conjunct2,
        THEN conjunct2, THEN conjunct2, rule_format, OF d] v
    by simp
  from w1 not_integer [OF n1] not_integer [OF n2] not_integer [OF n3] w5
  show ?thesis by (intro conjI)
qed

section \<open>Login and the operations: properties\<close>



lemma AddCookie_hoverauth:
  "AddCookie req hoverauth = req\<lparr>Cookie_header := Cookie_header req @ [hoverauth]\<rparr>"
  by (simp add: AddCookie_def hoverauth_def sanitizeCookieName_def sanitizeCookieValue_def
      validCookieValueByte_def)



text \<open>
  C4. GetDomain and GetDNSDomains with the empty domainID, and AddDNSRecord with a record
  whose content is empty, return an error made by \<^verbatim>\<open>errors.New\<close> and hand no request to the
  transport: the list of requests sent is empty, whatever the transport, the decoder and
  the client are. (AddDNSRecord tests the domainID first: with an empty domainID the
  error is \<^verbatim>\<open>empty domainID\<close>, otherwise \<^verbatim>\<open>Content can't be empty\<close>.)
\<close>

theorem preconditions_before_any_request:
  "Client_GetDomain N Ua c (DomainID []) = Return (Inl (ErrorsNew ''empty domainID''), [])
   \<and> Client_GetDNSDomains N Ub c (DomainID [])
       = Return (Inl (ErrorsNew ''empty domainID''), [])
   \<and> (NewDNSRecord.Content r = []
        \<longrightarrow> Client_AddDNSRecord N Uc c domainID (Some r)
            = Return (Some (ErrorsNew (if string_of_DomainID domainID = []
                                       then ''empty domainID''
                                       else ''Content can't be empty'')), []))"
  by (simp add: Client_GetDomain_def Client_GetDNSDomains_def Client_AddDNSRecord_def)

text \<open>A TXT record with no content, for the domain \<^verbatim>\<open>d1\<close>.\<close>

theorem preconditions_before_any_request_witness:
  "Client_AddDNSRecord double_NewRequest (double_Unmarshal True [] []) (double_Client 200)
     (DomainID ''d1'')
     (Some \<lparr>Type = RecordType ''TXT'', Name = ''www'', Content = [], TTL = 900 * Second\<rparr>)
   = Return (Some (ErrorsNew ''Content can't be empty''), [])"
  using preconditions_before_any_request
    [where N = double_NewRequest and c = "double_Client 200"
       and Ua = "double_Unmarshal True [] []
          :: string \<Rightarrow> (unit, unit) domainResp \<Rightarrow> (unit, unit) domainResp \<times> error option"
       and Ub = "double_Unmarshal True [] []" and Uc = "double_Unmarshal True [] []"
       and domainID = "DomainID ''d1''"
       and r = "\<lparr>Type = RecordType ''TXT'', Name = ''www'', Content = [], TTL = 900 * Second\<rparr>"]
  by simp

lemma find_in_set: "find P xs = Some x \<Longrightarrow> x \<in> set xs \<and> P x"
  by (induction xs) (auto split: if_splits)

lemma find_None_set: "(find P xs = None) = (\<not> (\<exists>x \<in> set xs. P x))"
  by (induction xs) auto

text \<open>
  C5. When the login request is built and the transport answers it with a response \<open>r\<close>:
  if the status code of \<open>r\<close> is 200 and \<open>r\<close> has a cookie named \<^verbatim>\<open>hoverauth\<close> with a
  non-empty value, Login returns such a cookie of \<open>r\<close>; if the status code is 200 and \<open>r\<close>
  has no such cookie, Login returns the InvalidLogin error about the missing cookie; if
  the status code is not 200, Login returns the InvalidLogin error about the status code,
  whatever the cookies. The three cases cover every response, so the credential is
  returned exactly in the first. The two messages differ for every status code.
\<close>

theorem Login_result:
  assumes "N ''GET'' (loginURL username password) = Inr req" and "tr req = Inr r"
  shows
    "(StatusCode r = 200
        \<and> (\<exists>ck \<in> set (Cookies r). Cookie.Name ck = ''hoverauth'' \<and> Value ck \<noteq> [])
      \<longrightarrow> (\<exists>ck. Login N tr username password = (Inr ck, [req])
                \<and> ck \<in> set (Cookies r) \<and> Cookie.Name ck = ''hoverauth'' \<and> Value ck \<noteq> []))
   \<and> (StatusCode r = 200
        \<and> \<not> (\<exists>ck \<in> set (Cookies r). Cookie.Name ck = ''hoverauth'' \<and> Value ck \<noteq> [])
      \<longrightarrow> Login N tr username password
          = (Inl (InvalidLogin ''unable to find 'hoverauth' cookie with data in response''),
             [req]))
   \<and> (StatusCode r \<noteq> 200
      \<longrightarrow> Login N tr username password
          = (Inl (InvalidLogin (''login HTTP status code was '' @ Itoa (StatusCode r))),
             [req]))
   \<and> ''login HTTP status code was '' @ Itoa (StatusCode r)
       \<noteq> ''unable to find 'hoverauth' cookie with data in response''"
proof -
  let ?P = "\<lambda>cook. Cookie.Name cook = ''hoverauth'' \<and> Value cook \<noteq> []"
  have get: "ctxhttp_Get N tr (defaultURL @ ''/login?''
       @ Values_Encode (Values_Set (Values_Set [] ''username'' username) ''password'' password))
     = (Inr r, [req])"
    using assms by (simp add: ctxhttp_Get_def loginURL_def)
  have bad: "Login N tr username password
      = (Inl (InvalidLogin (''login HTTP status code was '' @ Itoa (StatusCode r))), [req])"
    if "StatusCode r \<noteq> 200"
    using that get by (simp add: Login_def)
  have none: "Login N tr username password
      = (Inl (InvalidLogin ''unable to find 'hoverauth' cookie with data in response''), [req])"
    if "StatusCode r = 200" "\<not> (\<exists>ck \<in> set (Cookies r). ?P ck)"
  proof -
    from that(2) have "find ?P (Cookies r) = None"
      by (simp add: find_None_set)
    with that(1) get show ?thesis by (simp add: Login_def)
  qed
  have some: "\<exists>ck. Login N tr username password = (Inr ck, [req])
                \<and> ck \<in> set (Cookies r) \<and> ?P ck"
    if "StatusCode r = 200" "\<exists>ck \<in> set (Cookies r). ?P ck"
  proof -
    from that(2) have "find ?P (Cookies r) \<noteq> None"
      by (simp add: find_None_set)
    then obtain ck where f: "find ?P (Cookies r) = Some ck" by auto
    from find_in_set [OF f] have "ck \<in> set (Cookies r) \<and> ?P ck" .
    moreover from that(1) get f have "Login N tr username password = (Inr ck, [req])"
      by (simp add: Login_def)
    ultimately show ?thesis by blast
  qed
  have diff: "''login HTTP status code was '' @ Itoa (StatusCode r)
       \<noteq> ''unable to find 'hoverauth' cookie with data in response''"
    by simp
  from bad none some diff show ?thesis by blast
qed

text \<open>
  Three responses: 200 with the cookie \<^verbatim>\<open>hoverauth=abc123\<close> after another cookie, 200 with
  a \<^verbatim>\<open>hoverauth\<close> cookie of empty value, and 403 with the cookie.
\<close>

theorem Login_result_witness:
  "Login double_NewRequest
      (double_transport 200 [\<lparr>Name = ''other'', Value = ''x''\<rparr>, hoverauth]) ''me'' ''secret''
     = (Inr \<lparr>Name = ''hoverauth'', Value = ''abc123''\<rparr>,
        [\<lparr>Method = ''GET'', URL = loginURL ''me'' ''secret'', Cookie_header = []\<rparr>])
   \<and> Login double_NewRequest (double_transport 200 [\<lparr>Name = ''hoverauth'', Value = []\<rparr>])
      ''me'' ''secret''
     = (Inl (InvalidLogin ''unable to find 'hoverauth' cookie with data in response''),
        [\<lparr>Method = ''GET'', URL = loginURL ''me'' ''secret'', Cookie_header = []\<rparr>])
   \<and> Login double_NewRequest (double_transport 403 [hoverauth]) ''me'' ''secret''
     = (Inl (InvalidLogin ''login HTTP status code was 403''),
        [\<lparr>Method = ''GET'', URL = loginURL ''me'' ''secret'', Cookie_header = []\<rparr>])"
proof -
  let ?req = "\<lparr>Method = ''GET'', URL = loginURL ''me'' ''secret'', Cookie_header = []\<rparr>"
  have n: "double_NewRequest ''GET'' (loginURL ''me'' ''secret'') = Inr ?req"
    by (simp add: double_NewRequest_def)
  have i: "Itoa 403 = ''403''"
    by (simp add: Itoa_def digits.simps)
  have a: "double_transport 200 [\<lparr>Name = ''other'', Value = ''x''\<rparr>, hoverauth] ?req
      = Inr \<lparr>StatusCode = 200, Cookies = [\<lparr>Name = ''other'', Value = ''x''\<rparr>, hoverauth],
             Body = Inr []\<rparr>"
    by (simp add: double_transport_def)
  have b: "double_transport 200 [\<lparr>Name = ''hoverauth'', Value = []\<rparr>] ?req
      = Inr \<lparr>StatusCode = 200, Cookies = [\<lparr>Name = ''hoverauth'', Value = []\<rparr>],
             Body = Inr []\<rparr>"
    by (simp add: double_transport_def)
  have c: "double_transport 403 [hoverauth] ?req
      = Inr \<lparr>StatusCode = 403, Cookies = [hoverauth], Body = Inr []\<rparr>"
    by (simp add: double_transport_def)
  from Login_result
         [where N = double_NewRequest
            and tr = "double_transport 200 [\<lparr>Name = ''other'', Value = ''x''\<rparr>, hoverauth]",
          OF n a]
    Login_result
         [where N = double_NewRequest
            and tr = "double_transport 200 [\<lparr>Name = ''hoverauth'', Value = []\<rparr>]",
          OF n b]
    Login_result
         [where N = double_NewRequest and tr = "double_transport 403 [hoverauth]", OF n c]
    i
  show ?thesis
    by (auto simp add: hoverauth_def)
qed

lemma loginURL_example:
  "loginURL ''me'' ''p@ss w'' = ''https://www.hover.com/api/login?password=p%40ss+w&username=me''"
  by code_simp

lemma addDNSRecordURL_example:
  "addDNSRecordURL (DomainID ''d1'')
      \<lparr>Type = RecordType ''TXT'', Name = ''www'', Content = ''cool stuff'', TTL = 900 * Second\<rparr>
     = ''https://www.hover.com/api/domains/d1/dns?content=cool+stuff&name=www&ttl=900&type=TXT''"
  by code_simp







text \<open>
  C9. The claim: for every \<open>dnsID\<close> the call goes on to issue the DELETE request. The code
  tests nothing about \<open>dnsID\<close>, but it builds the request with \<^verbatim>\<open>http.NewRequest\<close>, which
  refuses a URL with a \<^verbatim>\<open>%\<close> that two hexadecimal digits do not follow: for the identifier
  \<^verbatim>\<open>%zz\<close> the call returns that error and hands no request to the transport.
\<close>

theorem DeleteDNSRecord_bad_escape_counterexample:
  "Client_DeleteDNSRecord net_http_NewRequest (double_Unmarshal True [] []) (double_Client 200)
      (DNSRecordID ''%zz'')
     = Return (Some (LibError ''invalid URL escape''), [])"
  by (simp add: Client_DeleteDNSRecord_def Client_do_def net_http_NewRequest_def
      validMethod_def isTokenByte_def url_Parse_def Cut_def isCTL_def defaultURL_def ishex_def)

text \<open>
  C9, as amended. \<open>Client_DeleteDNSRecord\<close> tests nothing about its identifier: for every
  \<open>dnsID\<close>, the empty one included, the result is decided by \<^verbatim>\<open>http.NewRequest\<close>, the
  client's cookie, the transport and the decoder. If \<^verbatim>\<open>http.NewRequest\<close> refuses the URL
  ending in \<^verbatim>\<open>/dns/\<close> and \<open>dnsID\<close>, its error is returned and nothing is sent, and that is
  the only way for the call to return with nothing sent. If it builds the request (and
  the client has its cookie; without one the call panics), the request with the cookie
  added is handed to the transport and the result is what the transport's answer makes
  it: the transport's error, the error of reading the body, the decoder's error, an
  \<open>APIError\<close> when the decoded \<open>Succeeded\<close> is false, no error when it is true. The
  \<^verbatim>\<open>http.NewRequest\<close> of the library builds the request for the empty identifier.
\<close>

theorem DeleteDNSRecord_has_no_precondition:
  "(N ''DELETE'' (defaultURL @ ''/dns/'' @ string_of_DNSRecordID dnsID) = Inl err
    \<longrightarrow> Client_DeleteDNSRecord N U c dnsID = Return (Some err, []))
 \<and> (N ''DELETE'' (defaultURL @ ''/dns/'' @ string_of_DNSRecordID dnsID) = Inr req
      \<and> cook c = None
    \<longrightarrow> Client_DeleteDNSRecord N U c dnsID = Panic NilPointerDereference)
 \<and> (N ''DELETE'' (defaultURL @ ''/dns/'' @ string_of_DNSRecordID dnsID) = Inr req
      \<and> cook c = Some ck \<and> hc c (AddCookie req ck) = Inl err
    \<longrightarrow> Client_DeleteDNSRecord N U c dnsID = Return (Some err, [AddCookie req ck]))
 \<and> (N ''DELETE'' (defaultURL @ ''/dns/'' @ string_of_DNSRecordID dnsID) = Inr req
      \<and> cook c = Some ck \<and> hc c (AddCookie req ck) = Inr resp \<and> Body resp = Inl err
    \<longrightarrow> Client_DeleteDNSRecord N U c dnsID = Return (Some err, [AddCookie req ck]))
 \<and> (N ''DELETE'' (defaultURL @ ''/dns/'' @ string_of_DNSRecordID dnsID) = Inr req
      \<and> cook c = Some ck \<and> hc c (AddCookie req ck) = Inr resp \<and> Body resp = Inr body
      \<and> U body \<lparr>Succeeded = False, ErrorCode = [], Error = []\<rparr> = (dr, Some err)
    \<longrightarrow> Client_DeleteDNSRecord N U c dnsID = Return (Some err, [AddCookie req ck]))
 \<and> (N ''DELETE'' (defaultURL @ ''/dns/'' @ string_of_DNSRecordID dnsID) = Inr req
      \<and> cook c = Some ck \<and> hc c (AddCookie req ck) = Inr resp \<and> Body resp = Inr body
      \<and> U body \<lparr>Succeeded = False, ErrorCode = [], Error = []\<rparr> = (dr, None)
    \<longrightarrow> Client_DeleteDNSRecord N U c dnsID
        = Return (if Succeeded dr then None
                  else Some (APIError (StatusCode resp) (ErrorCode dr) (Error dr)),
                  [AddCookie req ck]))
 \<and> (Client_DeleteDNSRecord N U c dnsID = Return (e', [])
    \<longrightarrow> (\<exists>err. N ''DELETE'' (defaultURL @ ''/dns/'' @ string_of_DNSRecordID dnsID) = Inl err
               \<and> e' = Some err))
 \<and> net_http_NewRequest ''DELETE'' (defaultURL @ ''/dns/'' @ string_of_DNSRecordID (DNSRecordID []))
      = Inr \<lparr>Method = ''DELETE'', URL = ''https://www.hover.com/api/dns/'', Cookie_header = []\<rparr>"
proof (intro conjI impI; (elim conjE)?)
  let ?url = "defaultURL @ ''/dns/'' @ string_of_DNSRecordID dnsID"
  show "Client_DeleteDNSRecord N U c dnsID = Return (Some err, [])"
    if "N ''DELETE'' ?url = Inl err"
    using that by (simp add: Client_DeleteDNSRecord_def Client_do_def)
  show "Client_DeleteDNSRecord N U c dnsID = Panic NilPointerDereference"
    if "N ''DELETE'' ?url = Inr req" "cook c = None"
    using that by (simp add: Client_DeleteDNSRecord_def Client_do_def)
  show "Client_DeleteDNSRecord N U c dnsID = Return (Some err, [AddCookie req ck])"
    if "N ''DELETE'' ?url = Inr req" "cook c = Some ck" "hc c (AddCookie req ck) = Inl err"
    using that by (simp add: Client_DeleteDNSRecord_def Client_do_def)
  show "Client_DeleteDNSRecord N U c dnsID = Return (Some err, [AddCookie req ck])"
    if "N ''DELETE'' ?url = Inr req" "cook c = Some ck" "hc c (AddCookie req ck) = Inr resp"
      "Body resp = Inl err"
    using that by (simp add: Client_DeleteDNSRecord_def Client_do_def)
  show "Client_DeleteDNSRecord N U c dnsID = Return (Some err, [AddCookie req ck])"
    if "N ''DELETE'' ?url = Inr req" "cook c = Some ck" "hc c (AddCookie req ck) = Inr resp"
      "Body resp = Inr body"
      "U body \<lparr>Succeeded = False, ErrorCode = [], Error = []\<rparr> = (dr, Some err)"
    using that by (simp add: Client_DeleteDNSRecord_def Client_do_def)
  show "Client_DeleteDNSRecord N U c dnsID
        = Return (if Succeeded dr then None
                  else Some (APIError (StatusCode resp) (ErrorCode dr) (Error dr)),
                  [AddCookie req ck])"
    if "N ''DELETE'' ?url = Inr req" "cook c = Some ck" "hc c (AddCookie req ck) = Inr resp"
      "Body resp = Inr body"
      "U body \<lparr>Succeeded = False, ErrorCode = [], Error = []\<rparr> = (dr, None)"
    using that by (simp add: Client_DeleteDNSRecord_def Client_do_def)
  show "\<exists>err. N ''DELETE'' ?url = Inl err \<and> e' = Some err"
    if "Client_DeleteDNSRecord N U c dnsID = Return (e', [])"
    using that
    by (auto simp add: Client_DeleteDNSRecord_def Client_do_def
        split: sum.splits option.splits prod.splits if_splits)
  show "net_http_NewRequest ''DELETE''
        (defaultURL @ ''/dns/'' @ string_of_DNSRecordID (DNSRecordID []))
      = Inr \<lparr>Method = ''DELETE'', URL = ''https://www.hover.com/api/dns/'', Cookie_header = []\<rparr>"
    by (simp add: net_http_NewRequest_def validMethod_def isTokenByte_def url_Parse_def Cut_def
        isCTL_def defaultURL_def)
qed

text \<open>
  The empty identifier with the \<^verbatim>\<open>http.NewRequest\<close> of the library: the request for
  \<^verbatim>\<open>https://www.hover.com/api/dns/\<close> is sent, and the result follows the transport's answer
  (success, an unsuccessful envelope with status code 400, a transport that fails). With
  a \<^verbatim>\<open>http.NewRequest\<close> that refuses the URL, its error is returned.
\<close>

theorem DeleteDNSRecord_has_no_precondition_witness:
  "Client_DeleteDNSRecord net_http_NewRequest (double_Unmarshal True [] []) (double_Client 200)
      (DNSRecordID [])
     = Return (None,
         [\<lparr>Method = ''DELETE'', URL = ''https://www.hover.com/api/dns/'',
           Cookie_header = [hoverauth]\<rparr>])
   \<and> Client_DeleteDNSRecord net_http_NewRequest (double_Unmarshal False ''E1'' ''bad'')
      (double_Client 400) (DNSRecordID [])
     = Return (Some (APIError 400 ''E1'' ''bad''),
         [\<lparr>Method = ''DELETE'', URL = ''https://www.hover.com/api/dns/'',
           Cookie_header = [hoverauth]\<rparr>])
   \<and> Client_DeleteDNSRecord net_http_NewRequest (double_Unmarshal True [] [])
      \<lparr>hc = double_failing_transport, cook = Some hoverauth\<rparr> (DNSRecordID [])
     = Return (Some (LibError ''connection refused''),
         [\<lparr>Method = ''DELETE'', URL = ''https://www.hover.com/api/dns/'',
           Cookie_header = [hoverauth]\<rparr>])
   \<and> Client_DeleteDNSRecord double_refusing_NewRequest (double_Unmarshal True [] [])
      (double_Client 200) (DNSRecordID [])
     = Return (Some (LibError ''invalid URL''), [])"
proof -
  let ?url = "defaultURL @ ''/dns/'' @ string_of_DNSRecordID (DNSRecordID [])"
  let ?req = "\<lparr>Method = ''DELETE'', URL = ''https://www.hover.com/api/dns/'', Cookie_header = []\<rparr>"
  let ?sent = "\<lparr>Method = ''DELETE'', URL = ''https://www.hover.com/api/dns/'',
                 Cookie_header = [hoverauth]\<rparr>"
  let ?zero = "\<lparr>Succeeded = False, ErrorCode = [], Error = []\<rparr>"
  note n = DeleteDNSRecord_has_no_precondition
    [THEN conjunct2, THEN conjunct2, THEN conjunct2, THEN conjunct2, THEN conjunct2,
     THEN conjunct2, THEN conjunct2]
  have a: "AddCookie ?req hoverauth = ?sent"
    by (simp add: AddCookie_hoverauth)
  have h1: "net_http_NewRequest ''DELETE'' ?url = Inr ?req
      \<and> cook (double_Client 200) = Some hoverauth
      \<and> hc (double_Client 200) (AddCookie ?req hoverauth)
          = Inr \<lparr>StatusCode = 200, Cookies = [], Body = Inr []\<rparr>
      \<and> Body \<lparr>StatusCode = 200, Cookies = [], Body = Inr []\<rparr> = Inr []
      \<and> double_Unmarshal True [] [] [] ?zero
          = (\<lparr>Succeeded = True, ErrorCode = [], Error = []\<rparr>, None)"
    using n by (simp add: double_Client_def double_transport_def double_Unmarshal_def)
  have w1: "Client_DeleteDNSRecord net_http_NewRequest (double_Unmarshal True [] [])
      (double_Client 200) (DNSRecordID []) = Return (None, [?sent])"
    using DeleteDNSRecord_has_no_precondition
      [where N = net_http_NewRequest and U = "double_Unmarshal True [] []",
       THEN conjunct2, THEN conjunct2, THEN conjunct2, THEN conjunct2, THEN conjunct2,
       THEN conjunct1, rule_format, OF h1] a
    by simp
  have h2: "net_http_NewRequest ''DELETE'' ?url = Inr ?req
      \<and> cook (double_Client 400) = Some hoverauth
      \<and> hc (double_Client 400) (AddCookie ?req hoverauth)
          = Inr \<lparr>StatusCode = 400, Cookies = [], Body = Inr []\<rparr>
      \<and> Body \<lparr>StatusCode = 400, Cookies = [], Body = Inr []\<rparr> = Inr []
      \<and> double_Unmarshal False ''E1'' ''bad'' [] ?zero
          = (\<lparr>Succeeded = False, ErrorCode = ''E1'', Error = ''bad''\<rparr>, None)"
    using n by (simp add: double_Client_def double_transport_def double_Unmarshal_def)
  have w2: "Client_DeleteDNSRecord net_http_NewRequest (double_Unmarshal False ''E1'' ''bad'')
      (double_Client 400) (DNSRecordID []) = Return (Some (APIError 400 ''E1'' ''bad''), [?sent])"
    using DeleteDNSRecord_has_no_precondition
      [where N = net_http_NewRequest and U = "double_Unmarshal False ''E1'' ''bad''",
       THEN conjunct2, THEN conjunct2, THEN conjunct2, THEN conjunct2, THEN conjunct2,
       THEN conjunct1, rule_format, OF h2] a
    by simp
  have h3: "net_http_NewRequest ''DELETE'' ?url = Inr ?req
      \<and> cook \<lparr>hc = double_failing_transport, cook = Some hoverauth\<rparr> = Some hoverauth
      \<and> hc \<lparr>hc = double_failing_transport, cook = Some hoverauth\<rparr> (AddCookie ?req hoverauth)
          = Inl (LibError ''connection refused'')"
    using n by (simp add: double_failing_transport_def)
  have w3: "Client_DeleteDNSRecord net_http_NewRequest (double_Unmarshal True [] [])
      \<lparr>hc = double_failing_transport, cook = Some hoverauth\<rparr> (DNSRecordID [])
     = Return (Some (LibError ''connection refused''), [?sent])"
    using DeleteDNSRecord_has_no_precondition
      [where N = net_http_NewRequest, THEN conjunct2, THEN conjunct2, THEN conjunct1,
       rule_format, OF h3] a
    by simp
  have h4: "double_refusing_NewRequest ''DELETE'' ?url = Inl (LibError ''invalid URL'')"
    by (simp add: double_refusing_NewRequest_def)
  have w4: "Client_DeleteDNSRecord double_refusing_NewRequest (double_Unmarshal True [] [])
      (double_Client 200) (DNSRecordID []) = Return (Some (LibError ''invalid URL''), [])"
    using DeleteDNSRecord_has_no_precondition
      [where N = double_refusing_NewRequest, THEN conjunct1, rule_format, OF h4] .
  from w1 w2 w3 w4 show ?thesis by (intro conjI)
qed

end
